theory Spec2Isabelle
  imports Complex_Main "HOL-Library.Sublist"
begin

section \<open>Data model of the registration page\<close>

text \<open>
  The client keeps a list of registrations and a form buffer. Strings are lists of
  characters; a field declared optional in the source (\<open>gradeLevel?: string\<close>) is a
  \<open>string option\<close>, with \<open>None\<close> for \<open>undefined\<close>.
  \<open>Registration\<close> is \<open>RegistrationFormValues\<close> plus \<open>id\<close> and \<open>createdAt\<close>
  (the field \<open>id\<close> is called \<open>ident\<close> here, \<open>id\<close> being the identity function of HOL).
\<close>

datatype Role = student | teacher

record RegistrationFormValues =
  role :: Role
  fullName :: string
  email :: string
  gradeLevel :: "string option"
  studentId :: "string option"
  subject :: "string option"
  employeeId :: "string option"

record Registration = RegistrationFormValues +
  ident :: string
  createdAt :: string

text \<open>The text a role takes inside a template literal.\<close>

definition role_text :: "Role \<Rightarrow> string" where
  "role_text r = (case r of student \<Rightarrow> ''student'' | teacher \<Rightarrow> ''teacher'')"

text \<open>\<open>x ?? ""\<close>: the value, or the empty string when it is undefined.\<close>

definition or_empty :: "string option \<Rightarrow> string" where
  "or_empty x = (case x of None \<Rightarrow> [] | Some s \<Rightarrow> s)"

section \<open>The report builder\<close>

text \<open>
  Decimal text of a natural number, as a template literal prints \<open>index + 1\<close>.
\<close>

definition digit_char :: "nat \<Rightarrow> char" where
  "digit_char d =
     (if d = 0 then CHR ''0'' else if d = 1 then CHR ''1'' else if d = 2 then CHR ''2''
      else if d = 3 then CHR ''3'' else if d = 4 then CHR ''4'' else if d = 5 then CHR ''5''
      else if d = 6 then CHR ''6'' else if d = 7 then CHR ''7'' else if d = 8 then CHR ''8''
      else CHR ''9'')"

fun show_nat :: "nat \<Rightarrow> string" where
  "show_nat n = (if n < 10 then [digit_char n] else show_nat (n div 10) @ [digit_char (n mod 10)])"

declare show_nat.simps [simp del]

text \<open>
  The callback of \<open>registrations.map\<close> in \<open>buildPrintableHtml\<close>: one table row for the
  registration at position \<open>index\<close> (counted from zero).
\<close>

definition grade_or_subject :: "Registration \<Rightarrow> string" where
  "grade_or_subject registration =
     (if role registration = student then or_empty (gradeLevel registration)
      else or_empty (subject registration))"

definition id_cell :: "Registration \<Rightarrow> string" where
  "id_cell registration =
     (if role registration = student then or_empty (studentId registration)
      else or_empty (employeeId registration))"

definition row_html :: "Registration \<Rightarrow> nat \<Rightarrow> string" where
  "row_html registration index =
     ''\<newline>'' @
     ''        <tr>\<newline>'' @
     ''          <td>'' @ show_nat (index + 1) @ ''</td>\<newline>'' @
     ''          <td>'' @ fullName registration @ ''</td>\<newline>'' @
     ''          <td>'' @ role_text (role registration) @ ''</td>\<newline>'' @
     ''          <td>'' @ email registration @ ''</td>\<newline>'' @
     ''          <td>'' @ grade_or_subject registration @ ''</td>\<newline>'' @
     ''          <td>'' @ id_cell registration @ ''</td>\<newline>'' @
     ''          <td>'' @ createdAt registration @ ''</td>\<newline>'' @
     ''        </tr>\<newline>'' @
     ''      ''"

text \<open>\<open>registrations.map(callback).join("")\<close>, the rows from position \<open>index\<close> on.\<close>

fun rows_from :: "nat \<Rightarrow> Registration list \<Rightarrow> string" where
  "rows_from index [] = []"
| "rows_from index (registration # rest) =
     row_html registration index @ rows_from (Suc index) rest"

definition rows_html :: "Registration list \<Rightarrow> string" where
  "rows_html registrations = rows_from 0 registrations"

definition page_head :: string where
  "page_head =
     ''\<newline>'' @
     ''    <html>\<newline>'' @
     ''      <head>\<newline>'' @
     ''        <title>Registration Report</title>\<newline>'' @
     ''        <style>\<newline>'' @
     ''          body { font-family: Arial, sans-serif; padding: 24px; color: #111827; }\<newline>'' @
     ''          h1 { margin: 0 0 8px; }\<newline>'' @
     ''          p { margin: 0 0 16px; color: #4b5563; }\<newline>'' @
     ''          table { width: 100%; border-collapse: collapse; font-size: 12px; }\<newline>'' @
     ''          th, td { border: 1px solid #e5e7eb; padding: 8px; text-align: left; }\<newline>'' @
     ''          th { background: #f3f4f6; }\<newline>'' @
     ''        </style>\<newline>'' @
     ''      </head>\<newline>'' @
     ''      <body>\<newline>'' @
     ''        <h1>Registration Report</h1>\<newline>'' @
     ''        <p>Generated: ''"

definition page_table_head :: string where
  "page_table_head =
     ''</p>\<newline>'' @
     ''        <table>\<newline>'' @
     ''          <thead>\<newline>'' @
     ''            <tr>\<newline>'' @
     ''              <th>#</th>\<newline>'' @
     ''              <th>Name</th>\<newline>'' @
     ''              <th>Role</th>\<newline>'' @
     ''              <th>Email</th>\<newline>'' @
     ''              <th>Grade/Subject</th>\<newline>'' @
     ''              <th>ID</th>\<newline>'' @
     ''              <th>Registered at</th>\<newline>'' @
     ''            </tr>\<newline>'' @
     ''          </thead>\<newline>'' @
     ''          <tbody>\<newline>'' @
     ''            ''"

definition page_tail :: string where
  "page_tail =
     ''\<newline>'' @
     ''          </tbody>\<newline>'' @
     ''        </table>\<newline>'' @
     ''      </body>\<newline>'' @
     ''    </html>\<newline>'' @
     ''  ''"

text \<open>
  \<open>buildPrintableHtml\<close>. The date text of \<open>today()\<close> comes from the clock and the
  locale of the browser, so it is a parameter.
\<close>

definition buildPrintableHtml :: "string \<Rightarrow> Registration list \<Rightarrow> string" where
  "buildPrintableHtml today registrations =
     page_head @ today @ page_table_head @ rows_html registrations @ page_tail"

section \<open>The summary\<close>

record Summary =
  studentCount :: nat
  teacherCount :: nat
  total :: nat

definition summary :: "Registration list \<Rightarrow> Summary" where
  "summary registrations =
     \<lparr> studentCount = length (filter (\<lambda>registration. role registration = student) registrations),
       teacherCount = length (filter (\<lambda>registration. role registration = teacher) registrations),
       total = length registrations \<rparr>"

section \<open>The form\<close>

text \<open>
  The form state is held by the hook \<open>useForm\<close> of the form library. What the page
  asks of it is modelled as follows.
  \<^item> The value store holds one value per field and keeps the value of an input that is
    no longer rendered (the library's default, \<open>shouldUnregister\<close> being unset). It starts
    from \<open>defaultValues = { role: "student" }\<close>: the four role fields are undefined; the
    two text fields, declared \<open>string\<close>, start empty.
  \<^item> \<open>handleSubmit(onSubmit)\<close> runs the rules given to \<open>register\<close> for the inputs that
    are rendered, calls \<open>onSubmit\<close> with the stored values when no rule fails, and
    otherwise reports the first failing rule of each field.
  \<^item> \<open>required\<close> fails on an undefined or empty value; \<open>pattern\<close> fails when the
    regular expression finds no match in the value.
\<close>

subsection \<open>The e-mail pattern\<close>

text \<open>
  \<open>/\S+@\S+\.\S+/\<close> without anchors: \<open>\S\<close> is any character that is neither white
  space nor a line terminator. On the characters of \<open>char\<close> these are tab, line feed,
  vertical tab, form feed, carriage return, space and no-break space.
\<close>

definition is_space :: "char \<Rightarrow> bool" where
  "is_space c \<longleftrightarrow> of_char c \<in> {9, 10, 11, 12, 13, 32, 160 :: nat}"

definition non_space :: "char \<Rightarrow> bool" where
  "non_space c \<longleftrightarrow> \<not> is_space c"

text \<open>
  The matcher follows the expression from left to right. Each function says whether the
  rest of the expression matches at the start of the text; after one \<open>\S\<close> of a \<open>\S+\<close> has
  been read, the \<open>_more\<close> function either goes on to the next part of the expression or
  reads one more \<open>\S\<close>.
\<close>

fun match_tld :: "string \<Rightarrow> bool" where
  "match_tld [] = False"
| "match_tld (c # cs) = non_space c"

fun match_domain_more :: "string \<Rightarrow> bool" where
  "match_domain_more [] = False"
| "match_domain_more (c # cs) =
     ((c = CHR ''.'' \<and> match_tld cs) \<or> (non_space c \<and> match_domain_more cs))"

fun match_domain :: "string \<Rightarrow> bool" where
  "match_domain [] = False"
| "match_domain (c # cs) = (non_space c \<and> match_domain_more cs)"

fun match_local_more :: "string \<Rightarrow> bool" where
  "match_local_more [] = False"
| "match_local_more (c # cs) =
     ((c = CHR ''@'' \<and> match_domain cs) \<or> (non_space c \<and> match_local_more cs))"

fun match_here :: "string \<Rightarrow> bool" where
  "match_here [] = False"
| "match_here (c # cs) = (non_space c \<and> match_local_more cs)"

text \<open>The search: a match at the start of the text, or in the text after its first character.\<close>

fun email_pattern :: "string \<Rightarrow> bool" where
  "email_pattern [] = False"
| "email_pattern (c # cs) = (match_here (c # cs) \<or> email_pattern cs)"

subsection \<open>Validation\<close>

datatype field = FullName | Email | GradeLevel | StudentId | Subject | EmployeeId

type_synonym field_errors = "(field \<times> string) list"

definition required_text :: "field \<Rightarrow> string \<Rightarrow> string \<Rightarrow> field_errors" where
  "required_text f message v = (if v = [] then [(f, message)] else [])"

definition required_opt :: "field \<Rightarrow> string \<Rightarrow> string option \<Rightarrow> field_errors" where
  "required_opt f message v = required_text f message (or_empty v)"

definition email_rules :: "string \<Rightarrow> field_errors" where
  "email_rules v =
     (if v = [] then [(Email, ''Email is required'')]
      else if \<not> email_pattern v then [(Email, ''Enter a valid email'')]
      else [])"

text \<open>
  The rules of the inputs that are rendered: full name and e-mail always, then the pair
  of the selected role (\<open>selectedRole === "student" ? ... : ...\<close>).
\<close>

definition validate :: "RegistrationFormValues \<Rightarrow> field_errors" where
  "validate v =
     required_text FullName ''Full name is required'' (fullName v) @
     email_rules (email v) @
     (if role v = student then
        required_opt GradeLevel ''Grade level is required'' (gradeLevel v) @
        required_opt StudentId ''Student ID is required'' (studentId v)
      else
        required_opt Subject ''Subject focus is required'' (subject v) @
        required_opt EmployeeId ''Employee ID is required'' (employeeId v))"

subsection \<open>Page state and handlers\<close>

text \<open>
  What the report action does to the browser, in order. \<open>WindowOpen ok\<close> is the call of
  \<open>window.open\<close>; \<open>ok\<close> tells whether the browser returned a window.
\<close>

datatype effect =
    WindowOpen bool
  | DocumentOpen
  | DocumentWrite string
  | DocumentClose
  | WindowFocus
  | WindowPrint
  | WindowClose

record app_state =
  registrations :: "Registration list"
  formValues :: RegistrationFormValues
  effects :: "effect list"

definition initial_state :: app_state where
  "initial_state =
     \<lparr> registrations = [],
       formValues = \<lparr> role = student, fullName = [], email = [],
                      gradeLevel = None, studentId = None, subject = None, employeeId = None \<rparr>,
       effects = [] \<rparr>"

text \<open>
  \<open>onSubmit\<close>: the entry is \<open>{ id, createdAt, ...data }\<close>; it is put in front of the list
  and the form is reset. The identifier of \<open>crypto.randomUUID()\<close> and the time text of
  \<open>new Date().toLocaleString()\<close> are parameters.
\<close>

definition onSubmit :: "string \<Rightarrow> string \<Rightarrow> RegistrationFormValues \<Rightarrow> app_state \<Rightarrow> app_state" where
  "onSubmit uuid now data st =
     (let entry = \<lparr> role = role data, fullName = fullName data, email = email data,
                     gradeLevel = gradeLevel data, studentId = studentId data,
                     subject = subject data, employeeId = employeeId data,
                     ident = uuid, createdAt = now \<rparr>
      in st \<lparr> registrations := entry # registrations st,
              formValues := \<lparr> role = role data, fullName = [], email = [],
                               gradeLevel = Some [], studentId = Some [],
                               subject = Some [], employeeId = Some [] \<rparr> \<rparr>)"

text \<open>
  \<open>handleSubmit(onSubmit)\<close>: the result is the list of errors shown next to the fields
  and the state after the event.
\<close>

definition handleSubmit :: "string \<Rightarrow> string \<Rightarrow> app_state \<Rightarrow> field_errors \<times> app_state" where
  "handleSubmit uuid now st =
     (let errors = validate (formValues st)
      in if errors = [] then ([], onSubmit uuid now (formValues st) st) else (errors, st))"

text \<open>
  \<open>handleDownload\<close>. \<open>popup\<close> tells whether \<open>window.open\<close> returns a window, \<open>today\<close> is
  the date text of the moment.
\<close>

definition handleDownload :: "bool \<Rightarrow> string \<Rightarrow> app_state \<Rightarrow> app_state" where
  "handleDownload popup today st =
     (if length (registrations st) = 0 then st
      else if \<not> popup then st \<lparr> effects := effects st @ [WindowOpen False] \<rparr>
      else st \<lparr> effects := effects st @
                 [WindowOpen True, DocumentOpen,
                  DocumentWrite (buildPrintableHtml today (registrations st)),
                  DocumentClose, WindowFocus, WindowPrint, WindowClose] \<rparr>)"

subsection \<open>Events of a page session\<close>

text \<open>
  The user selects a role, types into an input that is rendered, presses the submit
  button or presses the download button. The inputs of a role are rendered only while
  that role is selected, so typing into the other pair cannot happen and changes nothing.
  Selecting a role changes the role and clears nothing: the page has no handler for it.
  Every other change of the value store (the library reading the text of an input element
  when a field is mounted, the browser filling in the form) is covered by the event
  \<open>OtherChange\<close>, which may leave any values in the store.
\<close>

datatype event =
    SelectRole Role
  | TypeFullName string
  | TypeEmail string
  | TypeGradeLevel string
  | TypeStudentId string
  | TypeSubject string
  | TypeEmployeeId string
  | OtherChange RegistrationFormValues
  | Submit string string
  | Download bool string

definition change :: "event \<Rightarrow> RegistrationFormValues \<Rightarrow> RegistrationFormValues" where
  "change e v =
     (case e of
        SelectRole r \<Rightarrow> v \<lparr> role := r \<rparr>
      | TypeFullName s \<Rightarrow> v \<lparr> fullName := s \<rparr>
      | TypeEmail s \<Rightarrow> v \<lparr> email := s \<rparr>
      | TypeGradeLevel s \<Rightarrow> (if role v = student then v \<lparr> gradeLevel := Some s \<rparr> else v)
      | TypeStudentId s \<Rightarrow> (if role v = student then v \<lparr> studentId := Some s \<rparr> else v)
      | TypeSubject s \<Rightarrow> (if role v = teacher then v \<lparr> subject := Some s \<rparr> else v)
      | TypeEmployeeId s \<Rightarrow> (if role v = teacher then v \<lparr> employeeId := Some s \<rparr> else v)
      | OtherChange v' \<Rightarrow> v'
      | Submit uuid now \<Rightarrow> v
      | Download popup today \<Rightarrow> v)"

definition step :: "app_state \<Rightarrow> event \<Rightarrow> app_state" where
  "step st e =
     (case e of
        Submit uuid now \<Rightarrow> snd (handleSubmit uuid now st)
      | Download popup today \<Rightarrow> handleDownload popup today st
      | _ \<Rightarrow> st \<lparr> formValues := change e (formValues st) \<rparr>)"

definition run :: "event list \<Rightarrow> app_state" where
  "run events = foldl step initial_state events"

section \<open>The server's port\<close>

text \<open>
  \<open>const port = Number(process.env.PORT) || 5000\<close>, and later \<open>app.listen(port, ...)\<close>.
  The environment variable is unset (\<open>None\<close>, the undefined value) or a string.
\<close>

subsection \<open>Numbers\<close>

text \<open>
  A number of the language is a double: \<open>NaN\<close>, an infinity, the negative zero, or a
  finite value, given here as the rational number it stands for (\<open>Num 0\<close> is the positive
  zero).
\<close>

datatype js_number = NaN | PosInfinity | NegInfinity | NegZero | Num rat

text \<open>
  The number value of a positive rational \<open>a / b\<close>: the nearest double, a tie going to
  the even significand; a result of \<open>2 ^ 1024\<close> or more is the infinity. \<open>bit_length\<close>
  is the number of binary digits of a natural number, \<open>pow2_le k a b\<close> says
  \<open>2 ^ k \<le> a / b\<close>, \<open>binade a b\<close> is the exponent \<open>e\<close> with \<open>2 ^ e \<le> a / b < 2 ^ (e + 1)\<close>,
  and \<open>round_half_even num den\<close> is the integer nearest to \<open>num / den\<close>. A double has 53
  significant bits and its exponent is at least \<open>- 1022\<close>, so the last bit kept has the
  weight \<open>2 ^ k\<close> with \<open>k = max e (- 1022) - 52\<close>.
\<close>

fun bit_length :: "nat \<Rightarrow> nat" where
  "bit_length n = (if n = 0 then 0 else Suc (bit_length (n div 2)))"

declare bit_length.simps [simp del]

definition pow2_le :: "int \<Rightarrow> nat \<Rightarrow> nat \<Rightarrow> bool" where
  "pow2_le k a b \<longleftrightarrow> (if 0 \<le> k then b * 2 ^ nat k \<le> a else b \<le> a * 2 ^ nat (- k))"

definition binade :: "nat \<Rightarrow> nat \<Rightarrow> int" where
  "binade a b =
     (let d = int (bit_length a) - int (bit_length b)
      in if pow2_le d a b then d else d - 1)"

definition round_half_even :: "nat \<Rightarrow> nat \<Rightarrow> nat" where
  "round_half_even num den =
     (let q = num div den; r = num mod den
      in if 2 * r < den then q
         else if den < 2 * r then q + 1
         else if even q then q else q + 1)"

definition to_double :: "nat \<Rightarrow> nat \<Rightarrow> js_number" where
  "to_double a b =
     (if a = 0 then Num 0
      else
        let k = max (binade a b) (- 1022) - 52;
            n = (if 0 \<le> k then round_half_even a (b * 2 ^ nat k)
                 else round_half_even (a * 2 ^ nat (- k)) b)
        in if 0 \<le> k then
             (if 2 ^ 1024 \<le> n * 2 ^ nat k then PosInfinity else Num (of_nat (n * 2 ^ nat k)))
           else Num (of_nat n / of_nat (2 ^ nat (- k))))"

text \<open>The number of a literal with a minus sign, from the number of the literal without it.\<close>

definition negate :: "js_number \<Rightarrow> js_number" where
  "negate x =
     (case x of
        NaN \<Rightarrow> NaN
      | PosInfinity \<Rightarrow> NegInfinity
      | NegInfinity \<Rightarrow> PosInfinity
      | NegZero \<Rightarrow> Num 0
      | Num q \<Rightarrow> if q = 0 then NegZero else Num (- q))"

subsection \<open>\<open>Number\<close> of a string\<close>

text \<open>
  \<open>Number\<close> applied to a string: white space and line terminators are removed at both
  ends; the empty text is \<open>0\<close>; otherwise the text is a numeric literal or the result
  is \<open>NaN\<close>. A numeric literal is
  \<^item> \<open>0b\<close>, \<open>0o\<close> or \<open>0x\<close> (either case) and digits of that radix, without a sign;
  \<^item> or an optional sign and then \<open>Infinity\<close>, or decimal digits with an optional dot
    (digits are needed on one side of the dot at least) and an optional exponent part
    \<open>e\<close> or \<open>E\<close>, optional sign, decimal digits.

  The value of the literal is rounded to a double by \<open>to_double\<close>, as the engine of the
  platform does for literals of any length.
\<close>

definition is_digit :: "char \<Rightarrow> bool" where
  "is_digit c \<longleftrightarrow> (48::nat) \<le> of_char c \<and> of_char c \<le> (57::nat)"

definition digit_of :: "char \<Rightarrow> nat option" where
  "digit_of c =
     (let n = of_char c :: nat
      in if 48 \<le> n \<and> n \<le> 57 then Some (n - 48)
         else if 97 \<le> n \<and> n \<le> 102 then Some (n - 87)
         else if 65 \<le> n \<and> n \<le> 70 then Some (n - 55)
         else None)"

definition is_radix_digit :: "nat \<Rightarrow> char \<Rightarrow> bool" where
  "is_radix_digit radix c = (case digit_of c of None \<Rightarrow> False | Some d \<Rightarrow> d < radix)"

definition radix_value :: "nat \<Rightarrow> string \<Rightarrow> nat" where
  "radix_value radix s =
     foldl (\<lambda>acc c. radix * acc + (case digit_of c of None \<Rightarrow> 0 | Some d \<Rightarrow> d)) 0 s"

definition digits_value :: "string \<Rightarrow> nat" where
  "digits_value s = radix_value 10 s"

definition decimal_digits :: "string \<Rightarrow> nat option" where
  "decimal_digits s = (if s \<noteq> [] \<and> list_all is_digit s then Some (digits_value s) else None)"

definition signed_integer :: "string \<Rightarrow> int option" where
  "signed_integer s =
     (case s of
        [] \<Rightarrow> None
      | c # r \<Rightarrow>
          if c = CHR ''+'' then map_option int (decimal_digits r)
          else if c = CHR ''-'' then map_option (\<lambda>n. - int n) (decimal_digits r)
          else map_option int (decimal_digits s))"

definition exponent_part :: "string \<Rightarrow> int option" where
  "exponent_part s =
     (case s of
        [] \<Rightarrow> Some 0
      | c # r \<Rightarrow> if c = CHR ''e'' \<or> c = CHR ''E'' then signed_integer r else None)"

definition decimal_value :: "nat \<Rightarrow> int \<Rightarrow> js_number" where
  "decimal_value m k =
     (if 0 \<le> k then to_double (m * 10 ^ nat k) 1 else to_double m (10 ^ nat (- k)))"

definition mantissa_exponent :: "string \<Rightarrow> string \<Rightarrow> int \<Rightarrow> js_number" where
  "mantissa_exponent digits rest shift =
     (case exponent_part rest of
        None \<Rightarrow> NaN
      | Some e \<Rightarrow> decimal_value (digits_value digits) (e - shift))"

definition unsigned_decimal :: "string \<Rightarrow> js_number" where
  "unsigned_decimal s =
     (if s = ''Infinity'' then PosInfinity
      else
        let ip = takeWhile is_digit s; r = dropWhile is_digit s
        in case r of
             [] \<Rightarrow> (if ip = [] then NaN else mantissa_exponent ip [] 0)
           | c # r2 \<Rightarrow>
               (if c = CHR ''.'' then
                  (let fp = takeWhile is_digit r2; r3 = dropWhile is_digit r2
                   in if ip = [] \<and> fp = [] then NaN
                      else mantissa_exponent (ip @ fp) r3 (int (length fp)))
                else if ip = [] then NaN
                else mantissa_exponent ip r 0))"

definition radix_literal :: "nat \<Rightarrow> string \<Rightarrow> js_number" where
  "radix_literal radix ds =
     (if ds \<noteq> [] \<and> list_all (is_radix_digit radix) ds then to_double (radix_value radix ds) 1
      else NaN)"

definition radix_of :: "string \<Rightarrow> nat option" where
  "radix_of s =
     (case s of
        c0 # c1 # ds \<Rightarrow>
          if c0 \<noteq> CHR ''0'' then None
          else if c1 = CHR ''b'' \<or> c1 = CHR ''B'' then Some 2
          else if c1 = CHR ''o'' \<or> c1 = CHR ''O'' then Some 8
          else if c1 = CHR ''x'' \<or> c1 = CHR ''X'' then Some 16
          else None
      | _ \<Rightarrow> None)"

definition trim :: "string \<Rightarrow> string" where
  "trim s = rev (dropWhile is_space (rev (dropWhile is_space s)))"

definition string_to_number :: "string \<Rightarrow> js_number" where
  "string_to_number s =
     (let t = trim s
      in case t of
           [] \<Rightarrow> Num 0
         | c # r \<Rightarrow>
             (case radix_of t of
                Some radix \<Rightarrow> radix_literal radix (drop 2 t)
              | None \<Rightarrow>
                  if c = CHR ''+'' then unsigned_decimal r
                  else if c = CHR ''-'' then negate (unsigned_decimal r)
                  else unsigned_decimal t))"

definition Number_of :: "string option \<Rightarrow> js_number" where
  "Number_of x = (case x of None \<Rightarrow> NaN | Some s \<Rightarrow> string_to_number s)"

subsection \<open>The port and the call of \<open>listen\<close>\<close>

text \<open>\<open>a || b\<close> on numbers: \<open>b\<close> when \<open>a\<close> is \<open>NaN\<close> or a zero.\<close>

definition or_default :: "js_number \<Rightarrow> js_number \<Rightarrow> js_number" where
  "or_default a b = (if a = NaN \<or> a = Num 0 \<or> a = NegZero then b else a)"

definition port :: "string option \<Rightarrow> js_number" where
  "port env_PORT = or_default (Number_of env_PORT) (Num 5000)"

text \<open>
  \<open>app.listen(port, ...)\<close> hands the number to the \<open>listen\<close> of the platform, which
  accepts an integer from \<open>0\<close> to \<open>65535\<close> and throws a range error for any other number.
  With zero the operating system chooses the port (\<open>ListenAny\<close>). \<open>ListenOn p\<close> is the
  request to bind port \<open>p\<close>; whether the operating system grants it (the port may be in
  use) is not part of the model.
\<close>

datatype listen_result = ListenOn nat | ListenAny | BadPort

definition listen :: "js_number \<Rightarrow> listen_result" where
  "listen p =
     (case p of
        Num q \<Rightarrow>
          if q = of_int \<lfloor>q\<rfloor> \<and> 0 \<le> q \<and> q \<le> 65535
          then (if q = 0 then ListenAny else ListenOn (nat \<lfloor>q\<rfloor>))
          else BadPort
      | NegZero \<Rightarrow> ListenAny
      | _ \<Rightarrow> BadPort)"

section \<open>Notions used in the statements\<close>

subsection \<open>Populated field pairs\<close>

text \<open>
  A field is populated when it holds a string that is not empty. A pair is populated when
  both of its fields are. \<open>exactly_one_pair\<close> reads the invariant of the data model: the
  pair of the role is populated and the other pair is not. \<open>role_pair\<close> asks for the pair
  of the role only, and \<open>drop_other_pair\<close> makes the other pair absent.
\<close>

definition populated :: "string option \<Rightarrow> bool" where
  "populated x = (case x of None \<Rightarrow> False | Some s \<Rightarrow> s \<noteq> [])"

definition student_pair :: "'a RegistrationFormValues_scheme \<Rightarrow> bool" where
  "student_pair r \<longleftrightarrow> populated (gradeLevel r) \<and> populated (studentId r)"

definition teacher_pair :: "'a RegistrationFormValues_scheme \<Rightarrow> bool" where
  "teacher_pair r \<longleftrightarrow> populated (subject r) \<and> populated (employeeId r)"

definition exactly_one_pair :: "Registration \<Rightarrow> bool" where
  "exactly_one_pair r \<longleftrightarrow>
     (if role r = student then student_pair r \<and> \<not> teacher_pair r
      else teacher_pair r \<and> \<not> student_pair r)"

definition role_pair :: "'a RegistrationFormValues_scheme \<Rightarrow> bool" where
  "role_pair r \<longleftrightarrow> (if role r = student then student_pair r else teacher_pair r)"

definition drop_other_pair :: "Registration \<Rightarrow> Registration" where
  "drop_other_pair r =
     (if role r = student then r \<lparr> subject := None, employeeId := None \<rparr>
      else r \<lparr> gradeLevel := None, studentId := None \<rparr>)"

subsection \<open>Rows of a report\<close>

text \<open>
  The rows of a document are counted by its \<open><tr>\<close> tags; the table of the report has
  one header row, the others are body rows. \<open>table_row\<close> is a row given by the texts of
  its cells, \<open>report_cells\<close> the seven cells the specification gives row number \<open>n\<close>.
  A registration is \<open>markup_free\<close> when none of the texts the report shows contains
  the character that opens a tag.
\<close>

fun tr_tags :: "string \<Rightarrow> nat" where
  "tr_tags [] = 0"
| "tr_tags (c # cs) = (if prefix ''<tr>'' (c # cs) then 1 else 0) + tr_tags cs"

definition table_body_rows :: "string \<Rightarrow> nat" where
  "table_body_rows document = tr_tags document - 1"

definition markup_free :: "Registration \<Rightarrow> bool" where
  "markup_free r \<longleftrightarrow>
     CHR ''<'' \<notin> set (fullName r) \<and> CHR ''<'' \<notin> set (email r) \<and>
     CHR ''<'' \<notin> set (grade_or_subject r) \<and> CHR ''<'' \<notin> set (id_cell r) \<and>
     CHR ''<'' \<notin> set (createdAt r)"

definition table_row :: "string list \<Rightarrow> string" where
  "table_row cells =
     ''\<newline>        <tr>'' @
     concat (map (\<lambda>cell. ''\<newline>          <td>'' @ cell @ ''</td>'') cells) @
     ''\<newline>        </tr>\<newline>      ''"

definition report_cells :: "Registration \<Rightarrow> nat \<Rightarrow> string list" where
  "report_cells r n =
     [show_nat n, fullName r, role_text (role r), email r,
      (case role r of student \<Rightarrow> or_empty (gradeLevel r) | teacher \<Rightarrow> or_empty (subject r)),
      (case role r of student \<Rightarrow> or_empty (studentId r) | teacher \<Rightarrow> or_empty (employeeId r)),
      createdAt r]"

subsection \<open>Valid submissions of a session\<close>

text \<open>
  The number of submit events of a session that pass validation, counted along the
  session from state \<open>st\<close>.
\<close>

fun valid_submissions :: "app_state \<Rightarrow> event list \<Rightarrow> nat" where
  "valid_submissions st [] = 0"
| "valid_submissions st (e # es) =
     (case e of Submit uuid now \<Rightarrow> (if validate (formValues st) = [] then 1 else 0) | _ \<Rightarrow> 0)
     + valid_submissions (step st e) es"

subsection \<open>Example inputs\<close>

text \<open>The form of the example of the specification, filled in and not yet submitted.\<close>

definition jordan :: RegistrationFormValues where
  "jordan = \<lparr> role = student, fullName = ''Jordan Lee'', email = ''jordan@school.edu'',
               gradeLevel = Some ''10'', studentId = Some ''STU-2045'',
               subject = None, employeeId = None \<rparr>"

text \<open>
  A session in which the student fields are typed, the role is changed to teacher, the
  teacher fields are typed and the form is submitted.
\<close>

definition switching_session :: "event list" where
  "switching_session =
     [TypeFullName ''Ana Ruiz'', TypeEmail ''ana@school.edu'',
      TypeGradeLevel ''10'', TypeStudentId ''STU-1'',
      SelectRole teacher,
      TypeSubject ''Mathematics'', TypeEmployeeId ''EMP-8820'',
      Submit ''id-1'' ''t1'']"

text \<open>
  A session with a rejected submission, a student, a teacher and a report.
\<close>

definition mixed_session :: "event list" where
  "mixed_session =
     [TypeFullName ''Jordan Lee'', TypeEmail ''not-an-email'',
      TypeGradeLevel ''10'', TypeStudentId ''STU-2045'',
      Submit ''id-1'' ''t1'',
      TypeEmail ''jordan@school.edu'',
      Submit ''id-2'' ''t2'',
      SelectRole teacher,
      TypeFullName ''Ana Ruiz'', TypeEmail ''ana@school.edu'',
      TypeSubject ''Mathematics'', TypeEmployeeId ''EMP-8820'',
      Submit ''id-3'' ''t3'',
      Download True ''3/11/2026'']"

text \<open>A registration whose name closes its cell and its row and opens a new row.\<close>

definition injected :: Registration where
  "injected = \<lparr> role = student, fullName = ''x</td></tr><tr><td>y'', email = ''a@b.c'',
                 gradeLevel = Some ''10'', studentId = Some ''S1'',
                 subject = None, employeeId = None, ident = ''id-1'', createdAt = ''t'' \<rparr>"

text \<open>A registration whose name and e-mail contain markup characters.\<close>

definition marked :: Registration where
  "marked = \<lparr> role = teacher, fullName = ''<b>Al</b>'', email = ''a&b@c.d'',
               gradeLevel = None, studentId = None,
               subject = Some ''Art'', employeeId = Some ''E<1>'',
               ident = ''id-1'', createdAt = ''t'' \<rparr>"

definition two_entries :: "Registration list" where
  "two_entries =
     [\<lparr> role = teacher, fullName = ''Ana Ruiz'', email = ''ana@school.edu'',
        gradeLevel = Some [], studentId = Some [],
        subject = Some ''Mathematics'', employeeId = Some ''EMP-8820'',
        ident = ''id-3'', createdAt = ''t3'' \<rparr>,
      \<lparr> role = student, fullName = ''Jordan Lee'', email = ''jordan@school.edu'',
        gradeLevel = Some ''10'', studentId = Some ''STU-2045'',
        subject = None, employeeId = None,
        ident = ''id-2'', createdAt = ''t2'' \<rparr>]"

section \<open>The e-mail pattern\<close>

text \<open>
  The matcher accepts exactly the texts that contain a non-empty run without white space,
  an at sign, a second such run, a dot and a third such run.
\<close>

lemma match_tld_iff: "match_tld s \<longleftrightarrow> (\<exists>c cs. s = c # cs \<and> non_space c)"
  by (cases s) simp_all

lemma match_domain_more_iff:
  "match_domain_more s \<longleftrightarrow>
     (\<exists>d rest. s = d @ CHR ''.'' # rest \<and> list_all non_space d \<and> match_tld rest)"
proof (induction s)
  case Nil
  show ?case by simp
next
  case (Cons c cs)
  show ?case
  proof
    assume "match_domain_more (c # cs)"
    then consider "c = CHR ''.''" "match_tld cs" | "non_space c" "match_domain_more cs"
      by auto
    then show "\<exists>d rest. c # cs = d @ CHR ''.'' # rest \<and> list_all non_space d \<and> match_tld rest"
    proof cases
      case 1
      then have "c # cs = [] @ CHR ''.'' # cs \<and> list_all non_space [] \<and> match_tld cs" by simp
      then show ?thesis by blast
    next
      case 2
      then obtain d rest where "cs = d @ CHR ''.'' # rest" "list_all non_space d" "match_tld rest"
        using Cons.IH by blast
      with 2 have "c # cs = (c # d) @ CHR ''.'' # rest \<and> list_all non_space (c # d) \<and> match_tld rest"
        by simp
      then show ?thesis by blast
    qed
  next
    assume "\<exists>d rest. c # cs = d @ CHR ''.'' # rest \<and> list_all non_space d \<and> match_tld rest"
    then obtain d rest where *: "c # cs = d @ CHR ''.'' # rest" "list_all non_space d" "match_tld rest"
      by blast
    show "match_domain_more (c # cs)"
    proof (cases d)
      case Nil
      with * show ?thesis by simp
    next
      case (Cons c' d')
      with * have "c = c'" "cs = d' @ CHR ''.'' # rest" "non_space c'" "list_all non_space d'" by simp_all
      then show ?thesis using Cons.IH *(3) by auto
    qed
  qed
qed

lemma match_local_more_iff:
  "match_local_more s \<longleftrightarrow>
     (\<exists>l rest. s = l @ CHR ''@'' # rest \<and> list_all non_space l \<and> match_domain rest)"
proof (induction s)
  case Nil
  show ?case by simp
next
  case (Cons c cs)
  show ?case
  proof
    assume "match_local_more (c # cs)"
    then consider "c = CHR ''@''" "match_domain cs" | "non_space c" "match_local_more cs"
      by auto
    then show "\<exists>l rest. c # cs = l @ CHR ''@'' # rest \<and> list_all non_space l \<and> match_domain rest"
    proof cases
      case 1
      then have "c # cs = [] @ CHR ''@'' # cs \<and> list_all non_space [] \<and> match_domain cs" by simp
      then show ?thesis by blast
    next
      case 2
      then obtain l rest where "cs = l @ CHR ''@'' # rest" "list_all non_space l" "match_domain rest"
        using Cons.IH by blast
      with 2 have "c # cs = (c # l) @ CHR ''@'' # rest \<and> list_all non_space (c # l) \<and> match_domain rest"
        by simp
      then show ?thesis by blast
    qed
  next
    assume "\<exists>l rest. c # cs = l @ CHR ''@'' # rest \<and> list_all non_space l \<and> match_domain rest"
    then obtain l rest where *: "c # cs = l @ CHR ''@'' # rest" "list_all non_space l" "match_domain rest"
      by blast
    show "match_local_more (c # cs)"
    proof (cases l)
      case Nil
      with * show ?thesis by simp
    next
      case (Cons c' l')
      with * have "c = c'" "cs = l' @ CHR ''@'' # rest" "non_space c'" "list_all non_space l'" by simp_all
      then show ?thesis using Cons.IH *(3) by auto
    qed
  qed
qed

lemma match_domain_iff:
  "match_domain s \<longleftrightarrow>
     (\<exists>d rest. s = d @ CHR ''.'' # rest \<and> d \<noteq> [] \<and> list_all non_space d \<and> match_tld rest)"
proof (cases s)
  case Nil
  then show ?thesis by simp
next
  case (Cons c cs)
  show ?thesis
  proof
    assume "match_domain s"
    with Cons obtain d rest where "cs = d @ CHR ''.'' # rest" "list_all non_space d" "match_tld rest" "non_space c"
      using match_domain_more_iff [of cs] by auto
    with Cons have "s = (c # d) @ CHR ''.'' # rest \<and> c # d \<noteq> [] \<and> list_all non_space (c # d) \<and> match_tld rest"
      by simp
    then show "\<exists>d rest. s = d @ CHR ''.'' # rest \<and> d \<noteq> [] \<and> list_all non_space d \<and> match_tld rest"
      by blast
  next
    assume "\<exists>d rest. s = d @ CHR ''.'' # rest \<and> d \<noteq> [] \<and> list_all non_space d \<and> match_tld rest"
    then obtain d rest where *: "s = d @ CHR ''.'' # rest" "d \<noteq> []" "list_all non_space d" "match_tld rest"
      by blast
    then obtain c' d' where d: "d = c' # d'" by (cases d) auto
    with * Cons have "c = c'" "cs = d' @ CHR ''.'' # rest" "non_space c'" "list_all non_space d'" by simp_all
    then show "match_domain s" using Cons *(4) match_domain_more_iff [of cs] by auto
  qed
qed

lemma match_here_iff:
  "match_here s \<longleftrightarrow>
     (\<exists>l rest. s = l @ CHR ''@'' # rest \<and> l \<noteq> [] \<and> list_all non_space l \<and> match_domain rest)"
proof (cases s)
  case Nil
  then show ?thesis by simp
next
  case (Cons c cs)
  show ?thesis
  proof
    assume "match_here s"
    with Cons obtain l rest where "cs = l @ CHR ''@'' # rest" "list_all non_space l" "match_domain rest" "non_space c"
      using match_local_more_iff [of cs] by auto
    with Cons have "s = (c # l) @ CHR ''@'' # rest \<and> c # l \<noteq> [] \<and> list_all non_space (c # l) \<and> match_domain rest"
      by simp
    then show "\<exists>l rest. s = l @ CHR ''@'' # rest \<and> l \<noteq> [] \<and> list_all non_space l \<and> match_domain rest"
      by blast
  next
    assume "\<exists>l rest. s = l @ CHR ''@'' # rest \<and> l \<noteq> [] \<and> list_all non_space l \<and> match_domain rest"
    then obtain l rest where *: "s = l @ CHR ''@'' # rest" "l \<noteq> []" "list_all non_space l" "match_domain rest"
      by blast
    then obtain c' l' where "l = c' # l'" by (cases l) auto
    with * Cons have "c = c'" "cs = l' @ CHR ''@'' # rest" "non_space c'" "list_all non_space l'" by simp_all
    then show "match_here s" using Cons *(4) match_local_more_iff [of cs] by auto
  qed
qed

lemma email_pattern_iff_suffix:
  "email_pattern s \<longleftrightarrow> (\<exists>pre rest. s = pre @ rest \<and> match_here rest)"
proof (induction s)
  case Nil
  show ?case by simp
next
  case (Cons c cs)
  show ?case
  proof
    assume "email_pattern (c # cs)"
    then consider "match_here (c # cs)" | "email_pattern cs" by auto
    then show "\<exists>pre rest. c # cs = pre @ rest \<and> match_here rest"
    proof cases
      case 1
      then have "c # cs = [] @ (c # cs) \<and> match_here (c # cs)" by simp
      then show ?thesis by blast
    next
      case 2
      then obtain pre rest where "cs = pre @ rest" "match_here rest" using Cons.IH by blast
      then have "c # cs = (c # pre) @ rest \<and> match_here rest" by simp
      then show ?thesis by blast
    qed
  next
    assume "\<exists>pre rest. c # cs = pre @ rest \<and> match_here rest"
    then obtain pre rest where *: "c # cs = pre @ rest" "match_here rest" by blast
    show "email_pattern (c # cs)"
    proof (cases pre)
      case Nil
      with * have "match_here (c # cs)" by simp
      then show ?thesis by simp
    next
      case (Cons c' pre')
      with * have "cs = pre' @ rest" by simp
      then show ?thesis using Cons.IH *(2) by auto
    qed
  qed
qed

lemma email_pattern_shape:
  "email_pattern s \<longleftrightarrow>
     (\<exists>pre l d t post.
        s = pre @ l @ ''@'' @ d @ ''.'' @ t @ post \<and>
        l \<noteq> [] \<and> d \<noteq> [] \<and> t \<noteq> [] \<and>
        list_all non_space l \<and> list_all non_space d \<and> list_all non_space t)"
proof
  assume "email_pattern s"
  then obtain pre rest where 1: "s = pre @ rest" "match_here rest"
    using email_pattern_iff_suffix by blast
  then obtain l rest2 where 2: "rest = l @ CHR ''@'' # rest2" "l \<noteq> []" "list_all non_space l" "match_domain rest2"
    using match_here_iff by blast
  then obtain d rest3 where 3: "rest2 = d @ CHR ''.'' # rest3" "d \<noteq> []" "list_all non_space d" "match_tld rest3"
    using match_domain_iff by blast
  then obtain c post where 4: "rest3 = c # post" "non_space c"
    using match_tld_iff by blast
  have "s = pre @ l @ ''@'' @ d @ ''.'' @ [c] @ post \<and> l \<noteq> [] \<and> d \<noteq> [] \<and> [c] \<noteq> [] \<and>
        list_all non_space l \<and> list_all non_space d \<and> list_all non_space [c]"
    using 1 2 3 4 by simp
  then show "\<exists>pre l d t post.
        s = pre @ l @ ''@'' @ d @ ''.'' @ t @ post \<and>
        l \<noteq> [] \<and> d \<noteq> [] \<and> t \<noteq> [] \<and>
        list_all non_space l \<and> list_all non_space d \<and> list_all non_space t"
    by blast
next
  assume "\<exists>pre l d t post.
        s = pre @ l @ ''@'' @ d @ ''.'' @ t @ post \<and>
        l \<noteq> [] \<and> d \<noteq> [] \<and> t \<noteq> [] \<and>
        list_all non_space l \<and> list_all non_space d \<and> list_all non_space t"
  then obtain pre l d t post where *: "s = pre @ l @ ''@'' @ d @ ''.'' @ t @ post"
    "l \<noteq> []" "d \<noteq> []" "t \<noteq> []" "list_all non_space l" "list_all non_space d" "list_all non_space t"
    by blast
  from *(4,7) have "match_tld (t @ post)" by (cases t) simp_all
  then have "match_domain (d @ CHR ''.'' # t @ post)"
    using *(3,6) match_domain_iff by blast
  then have "match_here (l @ CHR ''@'' # d @ CHR ''.'' # t @ post)"
    using *(2,5) match_here_iff by blast
  then show "email_pattern s"
    using *(1) email_pattern_iff_suffix [of s] by auto
qed

section \<open>Submission\<close>

lemma email_pattern_nonempty: "email_pattern s \<Longrightarrow> s \<noteq> []"
  by (cases s) simp_all

lemma validate_student_ok:
  assumes "fullName v \<noteq> []" and "email_pattern (email v)" and "role v = student"
    and "gradeLevel v = Some g" and "g \<noteq> []" and "studentId v = Some i" and "i \<noteq> []"
  shows "validate v = []"
  using assms email_pattern_nonempty [of "email v"]
  by (simp add: validate_def required_text_def required_opt_def email_rules_def or_empty_def)

text \<open>
  C3. A valid student submission (full name not empty, e-mail matching the pattern, role
  student, grade level and student ID not empty) shows no error, makes the list one entry
  longer, raises \<open>total\<close> and \<open>studentCount\<close> by one, leaves \<open>teacherCount\<close> as it was, and
  puts the new entry, built from the submitted values, in front of the list.
\<close>

theorem valid_student_submission:
  assumes "fullName (formValues st) \<noteq> []"
    and "email_pattern (email (formValues st))"
    and "role (formValues st) = student"
    and "gradeLevel (formValues st) = Some g" and "g \<noteq> []"
    and "studentId (formValues st) = Some i" and "i \<noteq> []"
  shows "fst (handleSubmit uuid now st) = [] \<and>
    (let before = registrations st; after = registrations (snd (handleSubmit uuid now st)) in
     length after = length before + 1 \<and>
     total (summary after) = total (summary before) + 1 \<and>
     studentCount (summary after) = studentCount (summary before) + 1 \<and>
     teacherCount (summary after) = teacherCount (summary before) \<and>
     after =
       \<lparr> role = student, fullName = fullName (formValues st), email = email (formValues st),
         gradeLevel = Some g, studentId = Some i,
         subject = subject (formValues st), employeeId = employeeId (formValues st),
         ident = uuid, createdAt = now \<rparr> # before)"
  using validate_student_ok [OF assms] assms(3,4,6)
  by (simp add: handleSubmit_def onSubmit_def summary_def Let_def)

theorem valid_student_submission_witness:
  "registrations (snd (handleSubmit ''id-1'' ''now'' (initial_state \<lparr> formValues := jordan \<rparr>))) =
     [\<lparr> role = student, fullName = ''Jordan Lee'', email = ''jordan@school.edu'',
        gradeLevel = Some ''10'', studentId = Some ''STU-2045'',
        subject = None, employeeId = None, ident = ''id-1'', createdAt = ''now'' \<rparr>] \<and>
   total (summary (registrations (snd (handleSubmit ''id-1'' ''now'' (initial_state \<lparr> formValues := jordan \<rparr>))))) = 1 \<and>
   studentCount (summary (registrations (snd (handleSubmit ''id-1'' ''now'' (initial_state \<lparr> formValues := jordan \<rparr>))))) = 1 \<and>
   teacherCount (summary (registrations (snd (handleSubmit ''id-1'' ''now'' (initial_state \<lparr> formValues := jordan \<rparr>))))) = 0"
proof -
  let ?st = "initial_state \<lparr> formValues := jordan \<rparr>"
  have h1: "fullName (formValues ?st) \<noteq> []" by (simp add: jordan_def)
  have h2: "email_pattern (email (formValues ?st))"
    by (simp add: jordan_def non_space_def is_space_def)
  have h3: "role (formValues ?st) = student" by (simp add: jordan_def)
  have h4: "gradeLevel (formValues ?st) = Some ''10''" by (simp add: jordan_def)
  have h5: "''10'' \<noteq> []" by simp
  have h6: "studentId (formValues ?st) = Some ''STU-2045''" by (simp add: jordan_def)
  have h7: "''STU-2045'' \<noteq> []" by simp
  have s0: "summary (registrations ?st) = \<lparr> studentCount = 0, teacherCount = 0, total = 0 \<rparr>"
    by (simp add: summary_def initial_state_def)
  show ?thesis
    using valid_student_submission [OF h1 h2 h3 h4 h5 h6 h7, of "''id-1''" "''now''"] s0
    by (simp add: Let_def initial_state_def jordan_def summary_def)
qed

section \<open>Rejected submissions\<close>

text \<open>
  C5. When the e-mail value does not match the pattern, the submission is rejected: an
  error is shown for the e-mail field and the state, hence the list and its length, is
  unchanged.
\<close>

theorem malformed_email_rejected:
  assumes "\<not> email_pattern (email (formValues st))"
  shows "Email \<in> fst ` set (fst (handleSubmit uuid now st)) \<and>
         snd (handleSubmit uuid now st) = st \<and>
         length (registrations (snd (handleSubmit uuid now st))) = length (registrations st)"
  using assms
  by (simp add: handleSubmit_def validate_def email_rules_def Let_def)

theorem malformed_email_rejected_witness:
  "\<not> email_pattern ''not-an-email'' \<and>
   fst (handleSubmit ''id-1'' ''now'' (initial_state \<lparr> formValues := jordan \<lparr> email := ''not-an-email'' \<rparr> \<rparr>))
     = [(Email, ''Enter a valid email'')] \<and>
   registrations (snd (handleSubmit ''id-1'' ''now'' (initial_state \<lparr> formValues := jordan \<lparr> email := ''not-an-email'' \<rparr> \<rparr>))) = []"
proof -
  let ?st = "initial_state \<lparr> formValues := jordan \<lparr> email := ''not-an-email'' \<rparr> \<rparr>"
  have h: "\<not> email_pattern (email (formValues ?st))"
    by (simp add: non_space_def is_space_def)
  have e: "fst (handleSubmit ''id-1'' ''now'' ?st) = [(Email, ''Enter a valid email'')]"
    using h by (simp add: handleSubmit_def validate_def email_rules_def required_text_def
        required_opt_def or_empty_def jordan_def Let_def)
  show ?thesis
    using malformed_email_rejected [OF h, of "''id-1''" "''now''"] h e
    by (simp add: initial_state_def)
qed

section \<open>Reset of the form\<close>

text \<open>
  C7. After a valid submission the form holds the submitted role and the empty string in
  every other field.
\<close>

theorem reset_after_submission:
  assumes "validate (formValues st) = []"
  shows "formValues (snd (handleSubmit uuid now st)) =
     \<lparr> role = role (formValues st), fullName = [], email = [],
       gradeLevel = Some [], studentId = Some [], subject = Some [], employeeId = Some [] \<rparr>"
  using assms by (simp add: handleSubmit_def onSubmit_def Let_def)

theorem reset_after_submission_witness:
  "formValues (snd (handleSubmit ''id-1'' ''now'' (initial_state \<lparr> formValues := jordan \<rparr>))) =
     \<lparr> role = student, fullName = [], email = [],
       gradeLevel = Some [], studentId = Some [], subject = Some [], employeeId = Some [] \<rparr>"
proof -
  let ?st = "initial_state \<lparr> formValues := jordan \<rparr>"
  have h: "validate (formValues ?st) = []"
    by (simp add: validate_def required_text_def required_opt_def email_rules_def or_empty_def
        jordan_def non_space_def is_space_def)
  show ?thesis
    using reset_after_submission [OF h, of "''id-1''" "''now''"] by (simp add: jordan_def)
qed

section \<open>Summary\<close>

lemma step_registrations:
  "length (registrations (step st e)) =
     length (registrations st) +
     (case e of Submit uuid now \<Rightarrow> (if validate (formValues st) = [] then 1 else 0) | _ \<Rightarrow> 0)"
  by (cases e) (simp_all add: step_def handleSubmit_def onSubmit_def handleDownload_def Let_def)

lemma foldl_step_length:
  "length (registrations (foldl step st es)) = length (registrations st) + valid_submissions st es"
  by (induction es arbitrary: st) (simp_all add: step_registrations)

lemma summary_total: "total (summary rs) = length rs"
  by (simp add: summary_def)

lemma summary_split: "studentCount (summary rs) + teacherCount (summary rs) = length rs"
proof (induction rs)
  case Nil
  show ?case by (simp add: summary_def)
next
  case (Cons r rs)
  then show ?case by (cases "role r") (simp_all add: summary_def)
qed

lemma mixed_session_run:
  "registrations (run mixed_session) = two_entries \<and>
   effects (run mixed_session) =
     [WindowOpen True, DocumentOpen, DocumentWrite (buildPrintableHtml ''3/11/2026'' two_entries),
      DocumentClose, WindowFocus, WindowPrint, WindowClose]"
  by (simp add: run_def mixed_session_def two_entries_def step_def change_def initial_state_def
      handleSubmit_def onSubmit_def handleDownload_def validate_def required_text_def
      required_opt_def email_rules_def or_empty_def non_space_def is_space_def Let_def)

lemma mixed_session_valid: "valid_submissions initial_state mixed_session = 2"
  by (simp add: mixed_session_def step_def change_def initial_state_def
      handleSubmit_def onSubmit_def handleDownload_def validate_def required_text_def
      required_opt_def email_rules_def or_empty_def non_space_def is_space_def Let_def)

text \<open>
  C4. After any session, \<open>total\<close> is the number of valid submissions of the session, which
  is the length of the list, and \<open>studentCount + teacherCount = total\<close>.
\<close>

theorem summary_counts_reachable:
  "total (summary (registrations (run events))) = valid_submissions initial_state events \<and>
   total (summary (registrations (run events))) = length (registrations (run events)) \<and>
   studentCount (summary (registrations (run events))) +
     teacherCount (summary (registrations (run events))) =
     total (summary (registrations (run events)))"
  using foldl_step_length [of initial_state events]
  by (simp add: summary_total summary_split run_def initial_state_def)

theorem summary_counts_reachable_witness:
  "total (summary (registrations (run mixed_session))) = 2 \<and>
   studentCount (summary (registrations (run mixed_session))) = 1 \<and>
   teacherCount (summary (registrations (run mixed_session))) = 1"
  using summary_counts_reachable [of mixed_session]
  by (simp add: mixed_session_valid mixed_session_run two_entries_def summary_def)

section \<open>Field pairs of a registration\<close>

lemma switching_session_run:
  "registrations (run switching_session) =
     [\<lparr> role = teacher, fullName = ''Ana Ruiz'', email = ''ana@school.edu'',
        gradeLevel = Some ''10'', studentId = Some ''STU-1'',
        subject = Some ''Mathematics'', employeeId = Some ''EMP-8820'',
        ident = ''id-1'', createdAt = ''t1'' \<rparr>]"
  by (simp add: run_def switching_session_def step_def change_def initial_state_def
      handleSubmit_def onSubmit_def validate_def required_text_def required_opt_def
      email_rules_def or_empty_def non_space_def is_space_def Let_def)

text \<open>
  C1, as stated, fails: after the session \<open>switching_session\<close> the list holds a teacher
  whose student pair is populated too.
\<close>

theorem both_pairs_counterexample:
  "\<not> list_all exactly_one_pair (registrations (run switching_session))"
  by (simp add: switching_session_run exactly_one_pair_def student_pair_def teacher_pair_def
      populated_def)
lemma validate_role_pair: "validate v = [] \<Longrightarrow> role_pair v"
  by (auto simp: validate_def role_pair_def student_pair_def teacher_pair_def populated_def
      required_opt_def required_text_def or_empty_def split: if_splits option.splits)

lemma step_role_pair:
  "list_all role_pair (registrations st) \<Longrightarrow> list_all role_pair (registrations (step st e))"
proof (cases e)
  case (Submit uuid now)
  assume inv: "list_all role_pair (registrations st)"
  show ?thesis
  proof (cases "validate (formValues st) = []")
    case True
    then have "role_pair (formValues st)" by (rule validate_role_pair)
    then show ?thesis using inv True Submit
      by (auto simp: step_def handleSubmit_def onSubmit_def Let_def role_pair_def
          student_pair_def teacher_pair_def split: if_splits)
  next
    case False
    then show ?thesis using inv Submit by (simp add: step_def handleSubmit_def Let_def)
  qed
qed (simp_all add: step_def handleDownload_def)

lemma foldl_step_role_pair:
  "list_all role_pair (registrations st) \<Longrightarrow>
   list_all role_pair (registrations (foldl step st es))"
  by (induction es arbitrary: st) (simp_all add: step_role_pair)

lemma row_html_drop_other_pair: "row_html (drop_other_pair r) i = row_html r i"
  by (simp add: row_html_def drop_other_pair_def grade_or_subject_def id_cell_def)

lemma rows_from_drop_other_pair: "rows_from i (map drop_other_pair rs) = rows_from i rs"
  by (induction rs arbitrary: i) (simp_all add: row_html_drop_other_pair)

lemma role_drop_other_pair: "role (drop_other_pair r) = role r"
  by (simp add: drop_other_pair_def)

lemma summary_drop_other_pair: "summary (map drop_other_pair rs) = summary rs"
  by (simp add: summary_def filter_map comp_def role_drop_other_pair)

text \<open>
  C1, amended. After every session, each registration of the list has the pair of its
  role populated. The other pair may be absent, empty or hold text typed before a role
  change; the report and the summary do not read it: they are the same when the other
  pair is made absent.
\<close>

theorem role_pair_populated:
  "list_all role_pair (registrations (run events)) \<and>
   buildPrintableHtml today (map drop_other_pair (registrations (run events))) =
     buildPrintableHtml today (registrations (run events)) \<and>
   summary (map drop_other_pair (registrations (run events))) =
     summary (registrations (run events))"
  using foldl_step_role_pair [of initial_state events]
  by (simp add: run_def initial_state_def buildPrintableHtml_def rows_html_def
      rows_from_drop_other_pair summary_drop_other_pair)

theorem role_pair_populated_witness:
  "role_pair (hd (registrations (run switching_session))) \<and>
   teacher_pair (hd (registrations (run switching_session))) \<and>
   student_pair (hd (registrations (run switching_session))) \<and>
   buildPrintableHtml ''3/11/2026'' (map drop_other_pair (registrations (run switching_session))) =
     buildPrintableHtml ''3/11/2026'' (registrations (run switching_session))"
  using role_pair_populated [of switching_session "''3/11/2026''"]
  by (simp add: switching_session_run student_pair_def teacher_pair_def populated_def)

section \<open>The report action\<close>

text \<open>
  C6. With an empty list the report action changes nothing: \<open>window.open\<close> is not called,
  nothing is written and nothing is printed.
\<close>

theorem download_empty_noop:
  assumes "registrations st = []"
  shows "handleDownload popup today st = st \<and> effects (handleDownload popup today st) = effects st"
  using assms by (simp add: handleDownload_def)

theorem download_empty_noop_witness:
  "handleDownload True ''3/11/2026'' initial_state = initial_state \<and>
   effects (handleDownload True ''3/11/2026'' initial_state) = []"
proof -
  have h: "registrations initial_state = []" by (simp add: initial_state_def)
  show ?thesis
    using download_empty_noop [OF h, of True "''3/11/2026''"] by (simp add: initial_state_def)
qed

text \<open>
  C10. The report action leaves the list, the form values and the summary as they were,
  whether the list is empty, the window is refused or the print is done.
\<close>

theorem download_frame:
  "registrations (handleDownload popup today st) = registrations st \<and>
   formValues (handleDownload popup today st) = formValues st \<and>
   summary (registrations (handleDownload popup today st)) = summary (registrations st)"
  by (simp add: handleDownload_def)

theorem download_frame_witness:
  "registrations (handleDownload True ''3/11/2026'' (run mixed_session)) = two_entries \<and>
   registrations (handleDownload False ''3/11/2026'' (run mixed_session)) = two_entries \<and>
   registrations (handleDownload True ''3/11/2026'' initial_state) = []"
  using download_frame [of True "''3/11/2026''" "run mixed_session"]
    download_frame [of False "''3/11/2026''" "run mixed_session"]
    download_frame [of True "''3/11/2026''" initial_state]
  by (simp add: mixed_session_run initial_state_def)

section \<open>The report document\<close>

lemma tr_tags_skip: "CHR ''<'' \<notin> set a \<Longrightarrow> tr_tags (a @ b) = tr_tags b"
  by (induction a) auto

lemma digit_char_not_lt: "digit_char d \<noteq> CHR ''<''"
  by (simp add: digit_char_def)

lemma show_nat_not_lt: "CHR ''<'' \<notin> set (show_nat n)"
proof (induction n rule: show_nat.induct)
  case (1 n)
  show ?case
  proof (cases "n < 10")
    case True
    then show ?thesis using digit_char_not_lt [of n] by (subst show_nat.simps) auto
  next
    case False
    then show ?thesis using 1 digit_char_not_lt [of "n mod 10"]
      by (subst show_nat.simps) auto
  qed
qed

lemma role_text_not_lt: "CHR ''<'' \<notin> set (role_text r)"
  by (cases r) (simp_all add: role_text_def)

lemma tr_tags_row:
  assumes "markup_free r"
  shows "tr_tags (row_html r i @ rest) = Suc (tr_tags rest)"
  using assms
  by (simp add: row_html_def markup_free_def tr_tags_skip show_nat_not_lt role_text_not_lt)

lemma tr_tags_rows_from:
  "list_all markup_free rs \<Longrightarrow> tr_tags (rows_from i rs @ rest) = length rs + tr_tags rest"
  by (induction rs arbitrary: i) (simp_all add: tr_tags_row)

lemma tr_tags_page_tail: "tr_tags page_tail = 0"
  by (simp add: page_tail_def)

lemma tr_tags_page_table_head: "tr_tags (page_table_head @ rest) = Suc (tr_tags rest)"
  by (simp add: page_table_head_def)

lemma tr_tags_page_head: "tr_tags (page_head @ rest) = tr_tags rest"
  by (simp add: page_head_def)

lemma tr_tags_document:
  assumes "list_all markup_free rs" and "CHR ''<'' \<notin> set today"
  shows "tr_tags (buildPrintableHtml today rs) = Suc (length rs)"
  using assms tr_tags_rows_from [of rs 0 page_tail]
  by (simp add: buildPrintableHtml_def rows_html_def tr_tags_page_head tr_tags_skip
      tr_tags_page_table_head tr_tags_page_tail)

lemma row_html_cells: "row_html r i = table_row (report_cells r (i + 1))"
  by (cases "role r")
    (simp_all add: row_html_def table_row_def report_cells_def grade_or_subject_def id_cell_def)

lemma rows_from_nth:
  "rows_from k rs = concat (map (\<lambda>i. row_html (rs ! i) (k + i)) [0..<length rs])"
proof (induction rs arbitrary: k)
  case Nil
  show ?case by simp
next
  case (Cons r rs)
  have "[0..<length (r # rs)] = 0 # map Suc [0..<length rs]"
    by (simp add: upt_conv_Cons map_Suc_upt del: upt_Suc)
  then have "map (\<lambda>i. row_html ((r # rs) ! i) (k + i)) [0..<length (r # rs)] =
        row_html r k # map (\<lambda>i. row_html (rs ! i) (Suc k + i)) [0..<length rs]"
    by (simp only: list.map map_map comp_def nth_Cons_0 nth_Cons_Suc add_0_right add_Suc_right add_Suc)
  then show ?case using Cons.IH [of "Suc k"] by simp
qed

lemma sublist_chain: "sublist a b \<Longrightarrow> sublist b c \<Longrightarrow> sublist a c"
proof -
  assume "sublist a b" and "sublist b c"
  then obtain ps ss ps' ss' where "b = ps @ a @ ss" and "c = ps' @ b @ ss'"
    by (auto simp: sublist_def)
  then have "c = (ps' @ ps) @ a @ (ss @ ss')" by simp
  then show ?thesis unfolding sublist_def by blast
qed

lemma cell_in_table_row:
  assumes "cell \<in> set cells"
  shows "sublist (''<td>'' @ cell @ ''</td>'') (table_row cells)"
proof -
  from assms obtain xs ys where "cells = xs @ cell # ys" by (auto dest: split_list)
  then have "table_row cells =
      (''\<newline>        <tr>'' @
       concat (map (\<lambda>cell. ''\<newline>          <td>'' @ cell @ ''</td>'') xs) @
       ''\<newline>          '') @
      (''<td>'' @ cell @ ''</td>'') @
      (concat (map (\<lambda>cell. ''\<newline>          <td>'' @ cell @ ''</td>'') ys) @
       ''\<newline>        </tr>\<newline>      '')"
    by (simp add: table_row_def)
  then show ?thesis unfolding sublist_def by blast
qed

lemma row_in_rows_from:
  "i < length rs \<Longrightarrow> sublist (row_html (rs ! i) (k + i)) (rows_from k rs)"
proof (induction rs arbitrary: i k)
  case Nil
  then show ?case by simp
next
  case (Cons r rs)
  show ?case
  proof (cases i)
    case 0
    then show ?thesis by simp
  next
    case (Suc j)
    with Cons.prems have "j < length rs" by simp
    then have "sublist (row_html (rs ! j) (Suc k + j)) (rows_from (Suc k) rs)"
      by (rule Cons.IH)
    then have "sublist (row_html (rs ! j) (Suc k + j)) (row_html r k @ rows_from (Suc k) rs)"
      by (auto simp: sublist_append)
    with Suc show ?thesis by simp
  qed
qed

lemma row_in_document:
  assumes "i < length rs"
  shows "sublist (table_row (report_cells (rs ! i) (i + 1))) (buildPrintableHtml today rs)"
proof -
  have "sublist (row_html (rs ! i) i) (rows_html rs)"
    using row_in_rows_from [OF assms, of 0] by (simp add: rows_html_def)
  moreover have "sublist (rows_html rs) (buildPrintableHtml today rs)"
  proof -
    have "buildPrintableHtml today rs =
        (page_head @ today @ page_table_head) @ rows_html rs @ page_tail"
      by (simp add: buildPrintableHtml_def)
    then show ?thesis unfolding sublist_def by blast
  qed
  ultimately show ?thesis by (simp add: row_html_cells sublist_chain)
qed

lemma cell_in_document:
  assumes "i < length rs" and "cell \<in> set (report_cells (rs ! i) (i + 1))"
  shows "sublist (''<td>'' @ cell @ ''</td>'') (buildPrintableHtml today rs)"
  using cell_in_table_row [OF assms(2)] row_in_document [OF assms(1), of today]
  by (rule sublist_chain)

text \<open>
  C2, as stated, fails: the report of the one registration \<open>injected\<close> has two body rows.
\<close>

theorem report_rows_counterexample:
  "length [injected] = 1 \<and> table_body_rows (buildPrintableHtml ''3/11/2026'' [injected]) = 2"
  by (simp add: table_body_rows_def buildPrintableHtml_def rows_html_def row_html_def injected_def
      tr_tags_page_head tr_tags_skip tr_tags_page_table_head tr_tags_page_tail
      grade_or_subject_def id_cell_def or_empty_def role_text_def page_tail_def
      show_nat.simps digit_char_def)

text \<open>
  C2, amended. The table body of the report of a list of length \<open>N\<close> is the text of \<open>N\<close>
  rows, in the order of the list, row \<open>i\<close> (from zero) holding the number \<open>i + 1\<close>, the full
  name, the role, the e-mail, the grade level (student) or subject (teacher), the student
  ID (student) or employee ID (teacher) and the creation time of registration \<open>i\<close>. When
  no text shown contains the character that opens a tag, the document has exactly \<open>N\<close>
  body rows.
\<close>

theorem report_rows:
  "buildPrintableHtml today rs =
     page_head @ today @ page_table_head @
     concat (map (\<lambda>i. table_row (report_cells (rs ! i) (i + 1))) [0..<length rs]) @
     page_tail \<and>
   (list_all markup_free rs \<and> CHR ''<'' \<notin> set today \<longrightarrow>
      table_body_rows (buildPrintableHtml today rs) = length rs)"
proof
  show "buildPrintableHtml today rs =
     page_head @ today @ page_table_head @
     concat (map (\<lambda>i. table_row (report_cells (rs ! i) (i + 1))) [0..<length rs]) @
     page_tail"
    using rows_from_nth [of 0 rs]
    by (simp add: buildPrintableHtml_def rows_html_def row_html_cells)
  show "list_all markup_free rs \<and> CHR ''<'' \<notin> set today \<longrightarrow>
      table_body_rows (buildPrintableHtml today rs) = length rs"
    by (simp add: tr_tags_document table_body_rows_def)
qed

theorem report_rows_witness:
  "list_all markup_free two_entries \<and>
   table_body_rows (buildPrintableHtml ''3/11/2026'' two_entries) = 2 \<and>
   buildPrintableHtml ''3/11/2026'' two_entries =
     page_head @ ''3/11/2026'' @ page_table_head @
     table_row [''1'', ''Ana Ruiz'', ''teacher'', ''ana@school.edu'', ''Mathematics'',
                ''EMP-8820'', ''t3''] @
     table_row [''2'', ''Jordan Lee'', ''student'', ''jordan@school.edu'', ''10'',
                ''STU-2045'', ''t2''] @
     page_tail"
proof -
  have free: "list_all markup_free two_entries"
    by (simp add: two_entries_def markup_free_def grade_or_subject_def id_cell_def or_empty_def)
  have day: "CHR ''<'' \<notin> set ''3/11/2026''" by simp
  have cells: "report_cells (two_entries ! 0) (0 + 1) =
      [''1'', ''Ana Ruiz'', ''teacher'', ''ana@school.edu'', ''Mathematics'', ''EMP-8820'', ''t3'']"
    "report_cells (two_entries ! 1) (1 + 1) =
      [''2'', ''Jordan Lee'', ''student'', ''jordan@school.edu'', ''10'', ''STU-2045'', ''t2'']"
    by (simp_all add: two_entries_def report_cells_def role_text_def or_empty_def
        show_nat.simps digit_char_def)
  have len: "length two_entries = 2" by (simp add: two_entries_def)
  have upt: "[0..<2] = [0, 1]" by (simp add: upt_conv_Cons)
  have rows: "concat (map (\<lambda>i. table_row (report_cells (two_entries ! i) (i + 1)))
        [0..<length two_entries]) =
      table_row [''1'', ''Ana Ruiz'', ''teacher'', ''ana@school.edu'', ''Mathematics'',
                ''EMP-8820'', ''t3''] @
      table_row [''2'', ''Jordan Lee'', ''student'', ''jordan@school.edu'', ''10'',
                ''STU-2045'', ''t2'']"
    unfolding len upt by (simp only: list.map concat.simps cells append_Nil2)
  note inst = report_rows [of "''3/11/2026''" two_entries]
  from inst have doc: "buildPrintableHtml ''3/11/2026'' two_entries =
     page_head @ ''3/11/2026'' @ page_table_head @
     concat (map (\<lambda>i. table_row (report_cells (two_entries ! i) (i + 1)))
        [0..<length two_entries]) @ page_tail"
    by (rule conjunct1)
  from inst have "list_all markup_free two_entries \<and> CHR ''<'' \<notin> set ''3/11/2026'' \<longrightarrow>
      table_body_rows (buildPrintableHtml ''3/11/2026'' two_entries) = length two_entries"
    by (rule conjunct2)
  with free day have count: "table_body_rows (buildPrintableHtml ''3/11/2026'' two_entries) = 2"
    unfolding len by blast
  show ?thesis
    using free count doc unfolding rows by (simp only: append_assoc simp_thms)
qed

text \<open>
  C9. The text of every cell is put between the cell tags as it is: the document contains
  the whole row with the raw texts, in particular the raw full name, e-mail, grade or
  subject, ID and creation time, whatever characters they hold.
\<close>

theorem fields_inserted_verbatim:
  assumes "i < length rs"
  shows "sublist (table_row (report_cells (rs ! i) (i + 1))) (buildPrintableHtml today rs) \<and>
    sublist (''<td>'' @ fullName (rs ! i) @ ''</td>'') (buildPrintableHtml today rs) \<and>
    sublist (''<td>'' @ email (rs ! i) @ ''</td>'') (buildPrintableHtml today rs) \<and>
    sublist (''<td>'' @ grade_or_subject (rs ! i) @ ''</td>'') (buildPrintableHtml today rs) \<and>
    sublist (''<td>'' @ id_cell (rs ! i) @ ''</td>'') (buildPrintableHtml today rs) \<and>
    sublist (''<td>'' @ createdAt (rs ! i) @ ''</td>'') (buildPrintableHtml today rs)"
proof -
  have "fullName (rs ! i) \<in> set (report_cells (rs ! i) (i + 1))"
    and "email (rs ! i) \<in> set (report_cells (rs ! i) (i + 1))"
    and "grade_or_subject (rs ! i) \<in> set (report_cells (rs ! i) (i + 1))"
    and "id_cell (rs ! i) \<in> set (report_cells (rs ! i) (i + 1))"
    and "createdAt (rs ! i) \<in> set (report_cells (rs ! i) (i + 1))"
    by (cases "role (rs ! i)"; simp add: report_cells_def grade_or_subject_def id_cell_def)+
  then show ?thesis
    by (intro conjI row_in_document [OF assms] cell_in_document [OF assms])
qed

theorem fields_inserted_verbatim_witness:
  "sublist ''<td><b>Al</b></td>'' (buildPrintableHtml ''3/11/2026'' [marked]) \<and>
   sublist ''<td>a&b@c.d</td>'' (buildPrintableHtml ''3/11/2026'' [marked]) \<and>
   sublist ''<td>E<1></td>'' (buildPrintableHtml ''3/11/2026'' [marked])"
proof -
  have h: "0 < length [marked]" by simp
  show ?thesis
    using fields_inserted_verbatim [OF h, of "''3/11/2026''"]
    by (simp add: marked_def id_cell_def or_empty_def)
qed

section \<open>The server's port\<close>

subsection \<open>Integers below \<open>2 ^ 53\<close> are doubles\<close>

lemma bit_length_upper: "n < 2 ^ bit_length n"
proof (induction n rule: bit_length.induct)
  case (1 n)
  show ?case
  proof (cases "n = 0")
    case True
    then show ?thesis by (subst bit_length.simps) simp
  next
    case False
    with 1 have "n div 2 < 2 ^ bit_length (n div 2)" by simp
    then have "n < 2 * 2 ^ bit_length (n div 2)" by linarith
    with False show ?thesis by (subst bit_length.simps) simp
  qed
qed

lemma bit_length_lower: "0 < n \<Longrightarrow> 2 ^ (bit_length n - 1) \<le> n"
proof (induction n rule: bit_length.induct)
  case (1 n)
  then have pos: "n \<noteq> 0" by simp
  show ?case
  proof (cases "n div 2 = 0")
    case True
    then have "bit_length (n div 2) = 0" by (subst bit_length.simps) simp
    with pos have "bit_length n = 1" by (subst bit_length.simps) simp
    with 1 show ?thesis by simp
  next
    case False
    with 1 pos have ih: "2 ^ (bit_length (n div 2) - 1) \<le> n div 2" by simp
    from False have "bit_length (n div 2) \<noteq> 0" by (subst bit_length.simps) simp
    then obtain m where m: "bit_length (n div 2) = Suc m" by (cases "bit_length (n div 2)") auto
    with ih have "2 * 2 ^ m \<le> 2 * (n div 2)" by simp
    also have "\<dots> \<le> n" by simp
    finally have "2 ^ Suc m \<le> n" by simp
    moreover from pos m have "bit_length n = Suc (Suc m)" by (subst bit_length.simps) simp
    ultimately show ?thesis by simp
  qed
qed

lemma bit_length_one: "bit_length (Suc 0) = Suc 0"
  by (simp add: bit_length.simps)

lemma round_half_even_one: "round_half_even n (Suc 0) = n"
  by (simp add: round_half_even_def)

lemma to_double_exact:
  assumes "0 < a" and "a < 2 ^ 53"
  shows "to_double a 1 = Num (of_nat a)"
proof -
  define L where "L = bit_length a"
  have lo: "2 ^ (L - 1) \<le> a" unfolding L_def using assms(1) by (rule bit_length_lower)
  have "L \<noteq> 0" using bit_length_upper [of a] assms(1) unfolding L_def by (cases "bit_length a") auto
  then have L1: "1 \<le> L" by simp
  have "(2::nat) ^ (L - 1) < 2 ^ 53" using lo assms(2) by simp
  then have "L - 1 < 53" by (rule power_less_imp_less_exp [rotated]) simp
  with L1 have L53: "L \<le> 53" by simp
  have nat_d: "nat (int L - 1) = L - 1" by simp
  have b: "binade a 1 = int L - 1"
    using lo L1 by (simp add: binade_def pow2_le_def bit_length_one L_def [symmetric] nat_d Let_def)
  have mx: "max (int L - 1) (- 1022) - 52 = int L - 53" using L1 by simp
  show ?thesis
  proof (cases "L = 53")
    case True
    then show ?thesis using assms b
      by (simp add: to_double_def Let_def round_half_even_one)
  next
    case False
    with L53 have lt: "int L - 53 < 0" by simp
    then show ?thesis using assms b mx
      by (simp add: to_double_def Let_def round_half_even_one)
  qed
qed

subsection \<open>Strings of decimal digits\<close>

lemma digit_not_space: "is_digit c \<Longrightarrow> \<not> is_space c"
  by (auto simp: is_digit_def is_space_def)

lemma trim_digits:
  assumes "list_all is_digit s"
  shows "trim s = s"
proof (cases "s = []")
  case True
  then show ?thesis by (simp add: trim_def)
next
  case False
  then have "hd s \<in> set s" and "last s \<in> set s" by simp_all
  with assms have "is_digit (hd s)" and "is_digit (last s)" by (simp_all add: list_all_iff)
  then have "\<not> is_space (hd s)" and "\<not> is_space (hd (rev s))"
    using False by (simp_all add: hd_rev digit_not_space)
  then have "dropWhile is_space s = s" and "dropWhile is_space (rev s) = rev s"
    by (simp_all add: dropWhile_eq_self_iff)
  then show ?thesis by (simp add: trim_def)
qed

lemma radix_of_digits:
  assumes "list_all is_digit s"
  shows "radix_of s = None"
proof (cases s)
  case Nil
  then show ?thesis by (simp add: radix_of_def)
next
  case (Cons c0 s')
  show ?thesis
  proof (cases s')
    case Nil
    with Cons show ?thesis by (simp add: radix_of_def)
  next
    case (Cons c1 ds)
    with \<open>s = c0 # s'\<close> assms have "is_digit c1" by simp
    then have "c1 \<noteq> CHR ''b'' \<and> c1 \<noteq> CHR ''B'' \<and> c1 \<noteq> CHR ''o'' \<and> c1 \<noteq> CHR ''O'' \<and>
        c1 \<noteq> CHR ''x'' \<and> c1 \<noteq> CHR ''X''"
      by (auto simp: is_digit_def)
    with Cons \<open>s = c0 # s'\<close> show ?thesis by (simp add: radix_of_def)
  qed
qed

lemma unsigned_decimal_digits:
  assumes "list_all is_digit s" and "s \<noteq> []"
  shows "unsigned_decimal s = to_double (digits_value s) 1"
proof -
  have "\<not> is_digit CHR ''I''" by (simp add: is_digit_def)
  with assms(1) have ne: "s \<noteq> ''Infinity''" by auto
  from assms(1) have tw: "takeWhile is_digit s = s" and dw: "dropWhile is_digit s = []"
    by (simp_all add: list_all_iff)
  show ?thesis
    using assms(2) ne
    by (simp add: unsigned_decimal_def tw dw mantissa_exponent_def exponent_part_def
        decimal_value_def Let_def)
qed

lemma string_to_number_digits:
  assumes "list_all is_digit s" and "s \<noteq> []"
  shows "string_to_number s = to_double (digits_value s) 1"
proof -
  from assms obtain c r where s: "s = c # r" by (cases s) auto
  with assms(1) have "is_digit c" by simp
  then have sign: "c \<noteq> CHR ''+''" "c \<noteq> CHR ''-''" by (auto simp: is_digit_def)
  have t: "trim (c # r) = c # r" using trim_digits [OF assms(1)] by (simp only: s)
  have x: "radix_of (c # r) = None" using radix_of_digits [OF assms(1)] by (simp only: s)
  have u: "unsigned_decimal (c # r) = to_double (digits_value (c # r)) 1"
    using unsigned_decimal_digits [OF assms] by (simp only: s)
  show ?thesis unfolding s by (simp add: string_to_number_def t x u sign)
qed

subsection \<open>Which port the server listens on\<close>

lemma listen_port_iff:
  "listen (port env) = ListenOn p \<longleftrightarrow>
     (p = 5000 \<and> (Number_of env = NaN \<or> Number_of env = Num 0 \<or> Number_of env = NegZero)) \<or>
     (1 \<le> p \<and> p \<le> 65535 \<and> Number_of env = Num (of_nat p))"
proof (cases "Number_of env")
  case (Num q)
  show ?thesis
  proof (cases "q = 0")
    case True
    with Num show ?thesis by (auto simp: port_def or_default_def listen_def)
  next
    case False
    have "(q = of_int \<lfloor>q\<rfloor> \<and> 0 \<le> q \<and> q \<le> 65535 \<and> nat \<lfloor>q\<rfloor> = p) \<longleftrightarrow>
          (1 \<le> p \<and> p \<le> 65535 \<and> q = of_nat p)"
    proof
      assume a: "q = of_int \<lfloor>q\<rfloor> \<and> 0 \<le> q \<and> q \<le> 65535 \<and> nat \<lfloor>q\<rfloor> = p"
      then have "0 \<le> \<lfloor>q\<rfloor>" and "nat \<lfloor>q\<rfloor> = p" by simp_all
      then have "int p = \<lfloor>q\<rfloor>" by linarith
      then have "(of_int (int p) :: rat) = q" using a by simp
      then have qp: "q = of_nat p" by simp
      from qp False have "p \<noteq> 0" by auto
      from qp a have "(of_nat p :: rat) \<le> of_nat 65535" by simp
      then have "p \<le> 65535" by (simp only: of_nat_le_iff)
      with \<open>p \<noteq> 0\<close> qp show "1 \<le> p \<and> p \<le> 65535 \<and> q = of_nat p" by simp
    next
      assume a: "1 \<le> p \<and> p \<le> 65535 \<and> q = of_nat p"
      then have "(of_nat p :: rat) \<le> of_nat 65535" by (simp only: of_nat_le_iff)
      with a show "q = of_int \<lfloor>q\<rfloor> \<and> 0 \<le> q \<and> q \<le> 65535 \<and> nat \<lfloor>q\<rfloor> = p" by simp
    qed
    with Num False show ?thesis by (auto simp: port_def or_default_def listen_def)
  qed
qed (simp_all add: port_def or_default_def listen_def)

lemma listen_port_not_any: "listen (port env) \<noteq> ListenAny"
  by (cases "Number_of env") (auto simp: port_def or_default_def listen_def)

subsection \<open>Some values of the variable\<close>

lemmas number_eval =
  Number_of_def string_to_number_def trim_def is_space_def radix_of_def
  unsigned_decimal_def mantissa_exponent_def exponent_part_def signed_integer_def
  decimal_digits_def is_digit_def digits_value_def radix_value_def digit_of_def
  decimal_value_def negate_def radix_literal_def is_radix_digit_def Let_def

lemmas double_eval =
  to_double_def binade_def pow2_le_def bit_length.simps round_half_even_def Let_def

lemma to_double_values:
  "to_double 0 (Suc 0) = Num 0"
  "to_double (Suc 0) (Suc 0) = Num 1"
  "to_double 8000 (Suc 0) = Num 8000"
  "to_double 8080 (Suc 0) = Num 8080"
  "to_double 65536 (Suc 0) = Num 65536"
  "to_double 805 10 = Num (161 / 2)"
  by (simp_all add: double_eval)

lemma Number_of_values:
  "Number_of None = NaN"
  "Number_of (Some []) = Num 0"
  "Number_of (Some '' '') = Num 0"
  "Number_of (Some ''0'') = Num 0"
  "Number_of (Some ''-0'') = NegZero"
  "Number_of (Some ''abc'') = NaN"
  "Number_of (Some ''8080'') = Num 8080"
  "Number_of (Some '' 8080 '') = Num 8080"
  "Number_of (Some ''+8080'') = Num 8080"
  "Number_of (Some ''8e3'') = Num 8000"
  "Number_of (Some ''0x1F90'') = Num 8080"
  "Number_of (Some ''65536'') = Num 65536"
  "Number_of (Some ''80.5'') = Num (161 / 2)"
  "Number_of (Some ''-1'') = Num (- 1)"
  "Number_of (Some ''Infinity'') = PosInfinity"
  by (simp_all add: number_eval to_double_values)

lemma floor_half: "\<lfloor>161 / 2 :: rat\<rfloor> = 80"
  by (rule floor_unique) simp_all

lemma listen_values:
  "listen (Num 5000) = ListenOn 5000"
  "listen (Num 8080) = ListenOn 8080"
  "listen (Num 8000) = ListenOn 8000"
  "listen (Num 65536) = BadPort"
  "listen (Num (161 / 2)) = BadPort"
  "listen (Num (- 1)) = BadPort"
  "listen PosInfinity = BadPort"
  by (simp_all add: listen_def floor_half)

text \<open>
  C8, as stated, fails: with \<open>PORT=0\<close> the numeric value of the variable is \<open>0\<close> and the
  server listens on port \<open>5000\<close>.
\<close>

theorem port_counterexample:
  "Number_of (Some ''0'') = Num 0 \<and> port (Some ''0'') = Num 5000 \<and>
   listen (port (Some ''0'')) = ListenOn 5000"
  by (simp add: port_def or_default_def Number_of_values listen_values)

text \<open>
  C8, amended. The port is \<open>5000\<close> when \<open>PORT\<close> is unset and when the numeric value of
  \<open>PORT\<close> is \<open>NaN\<close> or a zero; otherwise it is the numeric value of \<open>PORT\<close>. The server
  listens on port \<open>p\<close> exactly when \<open>p\<close> is \<open>5000\<close> in the first case, or the numeric value
  of \<open>PORT\<close> is the integer \<open>p\<close> and \<open>1 \<le> p \<le> 65535\<close>; for every other numeric value
  \<open>listen\<close> refuses the port. In particular the server listens on \<open>p\<close> when \<open>PORT\<close> is
  a string of decimal digits with value \<open>p\<close> from \<open>1\<close> to \<open>65535\<close>.
\<close>

theorem port_value:
  "Number_of None = NaN \<and>
   port env =
     (if Number_of env = NaN \<or> Number_of env = Num 0 \<or> Number_of env = NegZero
      then Num 5000 else Number_of env) \<and>
   (listen (port env) = ListenOn p \<longleftrightarrow>
      (p = 5000 \<and> (Number_of env = NaN \<or> Number_of env = Num 0 \<or> Number_of env = NegZero)) \<or>
      (1 \<le> p \<and> p \<le> 65535 \<and> Number_of env = Num (of_nat p))) \<and>
   listen (port env) \<noteq> ListenAny \<and>
   (s \<noteq> [] \<and> list_all is_digit s \<and> 1 \<le> digits_value s \<and> digits_value s \<le> 65535 \<longrightarrow>
      listen (port (Some s)) = ListenOn (digits_value s))"
proof (intro conjI impI)
  show "Number_of None = NaN" by (simp add: Number_of_def)
  show "port env =
     (if Number_of env = NaN \<or> Number_of env = Num 0 \<or> Number_of env = NegZero
      then Num 5000 else Number_of env)"
    by (simp add: port_def or_default_def)
  show "listen (port env) = ListenOn p \<longleftrightarrow>
      (p = 5000 \<and> (Number_of env = NaN \<or> Number_of env = Num 0 \<or> Number_of env = NegZero)) \<or>
      (1 \<le> p \<and> p \<le> 65535 \<and> Number_of env = Num (of_nat p))"
    by (rule listen_port_iff)
  show "listen (port env) \<noteq> ListenAny" by (rule listen_port_not_any)
next
  assume a: "s \<noteq> [] \<and> list_all is_digit s \<and> 1 \<le> digits_value s \<and> digits_value s \<le> 65535"
  then have "string_to_number s = to_double (digits_value s) 1"
    by (simp add: string_to_number_digits)
  also have "\<dots> = Num (of_nat (digits_value s))"
    using a by (intro to_double_exact) simp_all
  finally have "Number_of (Some s) = Num (of_nat (digits_value s))"
    by (simp add: Number_of_def)
  with a show "listen (port (Some s)) = ListenOn (digits_value s)"
    by (simp add: listen_port_iff)
qed

theorem port_value_witness:
  "listen (port None) = ListenOn 5000 \<and>
   listen (port (Some ''8080'')) = ListenOn 8080 \<and>
   listen (port (Some '' 8080 '')) = ListenOn 8080 \<and>
   listen (port (Some ''+8080'')) = ListenOn 8080 \<and>
   listen (port (Some ''8e3'')) = ListenOn 8000 \<and>
   listen (port (Some ''0x1F90'')) = ListenOn 8080 \<and>
   listen (port (Some ''0'')) = ListenOn 5000 \<and>
   listen (port (Some ''-0'')) = ListenOn 5000 \<and>
   listen (port (Some '' '')) = ListenOn 5000 \<and>
   listen (port (Some ''abc'')) = ListenOn 5000 \<and>
   listen (port (Some ''65536'')) = BadPort \<and>
   listen (port (Some ''80.5'')) = BadPort \<and>
   listen (port (Some ''-1'')) = BadPort \<and>
   listen (port (Some ''Infinity'')) = BadPort"
proof -
  have digits: "''8080'' \<noteq> [] \<and> list_all is_digit ''8080'' \<and>
      1 \<le> digits_value ''8080'' \<and> digits_value ''8080'' \<le> 65535"
    by (simp add: is_digit_def digits_value_def radix_value_def digit_of_def)
  have dv: "digits_value ''8080'' = 8080"
    by (simp add: digits_value_def radix_value_def digit_of_def)
  note inst = port_value [of None 5000 "''8080''"]
  from inst have "listen (port None) = ListenOn 5000 \<longleftrightarrow>
      (5000 = (5000::nat) \<and> (Number_of None = NaN \<or> Number_of None = Num 0 \<or> Number_of None = NegZero)) \<or>
      (1 \<le> (5000::nat) \<and> (5000::nat) \<le> 65535 \<and> Number_of None = Num (of_nat 5000))"
    by blast
  then have unset: "listen (port None) = ListenOn 5000" by (simp add: Number_of_values)
  from inst digits have "listen (port (Some ''8080'')) = ListenOn (digits_value ''8080'')"
    by blast
  then have set8080: "listen (port (Some ''8080'')) = ListenOn 8080" by (simp only: dv)
  show ?thesis
    using unset set8080
    by (simp add: port_def or_default_def Number_of_values listen_values)
qed

end
